theory Spec2Isabelle
  imports Main
begin

section \<open>Python values\<close>

text \<open>
  A Python \<open>bytes\<close> object is a list of 8-bit characters. A Python \<open>str\<close> is kept in its
  UTF-8 encoding, so \<open>bytes.decode()\<close> checks the encoding and keeps the characters
  (the separators the program splits and joins on are ASCII, which never occurs inside a
  multi-byte UTF-8 sequence).
\<close>

type_synonym bytes = string
type_synonym str = string

text \<open>
  Two values the program only stores and hands to the library: an \<open>ssl.SSLContext\<close>
  object, named by a number, and a \<open>float\<close>, a mantissa and a binary exponent.
\<close>

datatype SSLContext = SSLContext nat
datatype py_float = PyFloat int int

subsection \<open>Exceptions\<close>

text \<open>
  The exception classes that matter to the \<open>except\<close> clauses of the program:
  \<open>imaplib.IMAP4.error\<close> with its subclasses \<open>abort\<close> and \<open>readonly\<close>
  (\<open>IMAP4_SSL.error\<close> is the same class, inherited); \<open>OSError\<close> with the network
  failures \<open>socket.gaierror\<close>, \<open>TimeoutError\<close>, \<open>ssl.SSLError\<close> and the builtin
  \<open>ConnectionError\<close> with \<open>ConnectionRefusedError\<close>; the errors the interpreter raises;
  \<open>KeyboardInterrupt\<close>, which derives from \<open>BaseException\<close> only.
\<close>

datatype exc_class =
    IMAP4_error | IMAP4_abort | IMAP4_readonly
  | OSError | gaierror | TimeoutError | SSLError
  | ConnectionError | ConnectionRefusedError
  | RuntimeError | ValueError | TypeError | IndexError | AttributeError
  | UnicodeDecodeError | OtherException
  | KeyboardInterrupt

text \<open>\<open>Exc c m\<close> is an exception object of class \<open>c\<close> whose \<open>str()\<close> is \<open>m\<close>.\<close>

datatype py_exc = Exc exc_class str

fun class_of :: "py_exc \<Rightarrow> exc_class" where
  "class_of (Exc c m) = c"

fun str_of :: "py_exc \<Rightarrow> str" where
  "str_of (Exc c m) = m"

text \<open>What \<open>except IMAP4.error\<close> and \<open>except (IMAP4.error, IMAP4_SSL.error)\<close> catch.\<close>

fun subclass_IMAP4_error :: "exc_class \<Rightarrow> bool" where
  "subclass_IMAP4_error IMAP4_error = True"
| "subclass_IMAP4_error IMAP4_abort = True"
| "subclass_IMAP4_error IMAP4_readonly = True"
| "subclass_IMAP4_error c = False"

text \<open>What \<open>except Exception\<close> catches.\<close>

fun subclass_Exception :: "exc_class \<Rightarrow> bool" where
  "subclass_Exception KeyboardInterrupt = False"
| "subclass_Exception c = True"

text \<open>The instances of the builtin \<open>ConnectionError\<close>.\<close>

fun subclass_ConnectionError :: "exc_class \<Rightarrow> bool" where
  "subclass_ConnectionError ConnectionError = True"
| "subclass_ConnectionError ConnectionRefusedError = True"
| "subclass_ConnectionError c = False"

subsection \<open>Strings\<close>

definition dquote :: char where
  "dquote = CHR 0x22"

definition backslash :: char where
  "backslash = CHR 0x5C"

definition squote :: char where
  "squote = CHR 0x27"

text \<open>
  The errors the interpreter raises on the values of a reply, with the message texts of
  CPython: an attribute looked up on an object that lacks it, an index out of range, a
  failed unpacking into two names.
\<close>

definition no_attribute :: "str \<Rightarrow> str \<Rightarrow> py_exc" where
  "no_attribute ty name =
     Exc AttributeError
       ([squote] @ ty @ [squote] @ '' object has no attribute '' @ [squote] @ name @ [squote])"

definition index_out_of_range :: py_exc where
  "index_out_of_range = Exc IndexError ''list index out of range''"

text \<open>\<open>sep.join(xs)\<close>.\<close>

fun str_join :: "str \<Rightarrow> str list \<Rightarrow> str" where
  "str_join sep [] = []"
| "str_join sep [x] = x"
| "str_join sep (x # y # ys) = x @ sep @ str_join sep (y # ys)"

text \<open>
  \<open>s.split(sep)\<close> for a non-empty separator: the parts between the non-overlapping
  occurrences of \<open>sep\<close>, found from the left. (Python raises \<open>ValueError\<close> on an empty
  separator; the program splits on a constant only.)
\<close>

fun str_split :: "str \<Rightarrow> str \<Rightarrow> str list" where
  "str_split sep [] = [[]]"
| "str_split sep (c # cs) =
     (if sep \<noteq> [] \<and> take (length sep) (c # cs) = sep
      then [] # str_split sep (drop (length sep - 1) cs)
      else (case str_split sep cs of
              [] \<Rightarrow> [[c]]
            | p # ps \<Rightarrow> (c # p) # ps))"

text \<open>
  \<open>b.split()\<close> without an argument: the maximal runs of non-whitespace bytes; the
  whitespace bytes are space, tab, line feed, vertical tab, form feed and carriage return.
\<close>

definition is_space :: "char \<Rightarrow> bool" where
  "is_space c = (c \<in> set [CHR 0x20, CHR 0x09, CHR 0x0A, CHR 0x0B, CHR 0x0C, CHR 0x0D])"

fun split_ws :: "bytes \<Rightarrow> bytes \<Rightarrow> bytes list" where
  "split_ws cur [] = (if cur = [] then [] else [cur])"
| "split_ws cur (c # cs) =
     (if is_space c
      then (if cur = [] then split_ws [] cs else cur # split_ws [] cs)
      else split_ws (cur @ [c]) cs)"

definition bytes_split :: "bytes \<Rightarrow> bytes list" where
  "bytes_split b = split_ws [] b"

text \<open>
  \<open>b.decode()\<close>: strict UTF-8. The well-formed byte sequences are those of the Unicode
  standard (no overlong forms, no surrogates, nothing above U+10FFFF); any other input
  raises \<open>UnicodeDecodeError\<close> (its message, which names the offending byte and its
  position, is abbreviated here).
\<close>

definition byte_in :: "char \<Rightarrow> nat \<Rightarrow> nat \<Rightarrow> bool" where
  "byte_in c lo hi = (lo \<le> of_char c \<and> of_char c \<le> hi)"

fun utf8_valid :: "bytes \<Rightarrow> bool" where
  "utf8_valid [] = True"
| "utf8_valid (a # rest) =
     (if byte_in a 0x00 0x7F then utf8_valid rest
      else if byte_in a 0xC2 0xDF then
        (case rest of
           b # r \<Rightarrow> byte_in b 0x80 0xBF \<and> utf8_valid r
         | _ \<Rightarrow> False)
      else if byte_in a 0xE0 0xEF then
        (case rest of
           b # c # r \<Rightarrow>
             byte_in b (if a = CHR 0xE0 then 0xA0 else 0x80) (if a = CHR 0xED then 0x9F else 0xBF)
             \<and> byte_in c 0x80 0xBF \<and> utf8_valid r
         | _ \<Rightarrow> False)
      else if byte_in a 0xF0 0xF4 then
        (case rest of
           b # c # d # r \<Rightarrow>
             byte_in b (if a = CHR 0xF0 then 0x90 else 0x80) (if a = CHR 0xF4 then 0x8F else 0xBF)
             \<and> byte_in c 0x80 0xBF \<and> byte_in d 0x80 0xBF \<and> utf8_valid r
         | _ \<Rightarrow> False)
      else False)"

definition decode :: "bytes \<Rightarrow> py_exc + str" where
  "decode b =
     (if utf8_valid b then Inr b
      else Inl (Exc UnicodeDecodeError ''utf-8 codec can not decode bytes''))"

text \<open>\<open>map(lambda x: x.decode(), xs)\<close>, consumed from the left: the first failure raises.\<close>

fun decode_all :: "bytes list \<Rightarrow> py_exc + str list" where
  "decode_all [] = Inr []"
| "decode_all (x # xs) =
     (case decode x of
        Inl e \<Rightarrow> Inl e
      | Inr s \<Rightarrow> (case decode_all xs of Inl e \<Rightarrow> Inl e | Inr ss \<Rightarrow> Inr (s # ss)))"

text \<open>\<open>range(0, n, step)\<close> for a positive step, as the list of the indices it yields.\<close>

function range_up :: "nat \<Rightarrow> nat \<Rightarrow> nat \<Rightarrow> nat list" where
  "range_up i n step = (if i < n \<and> 0 < step then i # range_up (i + step) n step else [])"
  by pat_completeness auto
termination
  by (relation "measure (\<lambda>(i, n, step). n - i)") auto

declare range_up.simps [simp del]

text \<open>
  \<open>range(0, n, step)\<close> for any integer step: a zero step raises \<open>ValueError\<close>, a negative
  step counts down from 0 and yields nothing.
\<close>

definition py_range0 :: "nat \<Rightarrow> int \<Rightarrow> py_exc + nat list" where
  "py_range0 n step =
     (if step = 0 then Inl (Exc ValueError ''range() arg 3 must not be zero'')
      else if step < 0 then Inr []
      else Inr (range_up 0 n (nat step)))"

section \<open>The IMAP library\<close>

text \<open>
  The program talks to the server through \<open>imaplib\<close> only. A connection object is a
  handle; every call into the library is recorded in a trace. The library and the server
  behind it are a function from the calls made so far (the current one last) to what
  the current call does: it returns, or it raises.
\<close>

type_synonym handle = nat

datatype call =
    IMAP4_SSL str int "SSLContext option" "py_float option"
  | LOGIN handle str str
  | LOGOUT handle
  | NOOP handle
  | SELECT handle "str option"
  | SEARCH handle "str option" str
  | FETCH handle str str
  | STORE handle str str str
  | EXPUNGE handle
  | LIST handle bytes bytes
  | RENAME handle str str
  | CREATE handle str
  | DELETE handle str

text \<open>
  An item of the data list of a reply is \<open>None\<close>, a \<open>bytes\<close> object or a pair of
  \<open>bytes\<close> objects (a literal with its envelope).
\<close>

datatype datum = DNone | DBytes bytes | DPair bytes bytes

text \<open>
  \<open>Returns status data\<close> is the pair \<open>(status, data)\<close> a method returns; for the
  constructor \<open>IMAP4_SSL\<close> it only says that the object was built.
\<close>

datatype reply = Returns str "datum list" | Raises py_exc

type_synonym trace = "call list"
type_synonym library = "call list \<Rightarrow> reply"

definition invoke :: "library \<Rightarrow> call \<Rightarrow> trace \<Rightarrow> reply \<times> trace" where
  "invoke lib c tr = (lib (tr @ [c]), tr @ [c])"

text \<open>The parsed message \<open>message_from_bytes(message, policy=policy.default)\<close>.\<close>

datatype EmailMessage = message_from_bytes bytes

section \<open>The session wrapper: class \<open>IMAP4_Client\<close>\<close>

record IMAP4_Client =
  host :: str
  port :: int
  sslcontext :: "SSLContext option"
  timeout :: "py_float option"
  imap :: "handle option"

text \<open>\<open>__init__\<close>\<close>

definition init :: "str \<Rightarrow> int \<Rightarrow> SSLContext option \<Rightarrow> py_float option \<Rightarrow> IMAP4_Client" where
  "init h p ctx t = \<lparr>host = h, port = p, sslcontext = ctx, timeout = t, imap = None\<rparr>"

text \<open>
  \<open>self.__imap.name(...)\<close>: a method call on the handle the session holds. On \<open>None\<close>
  the attribute lookup raises \<open>AttributeError\<close> and nothing reaches the library.
\<close>

definition imap_call :: "library \<Rightarrow> IMAP4_Client \<Rightarrow> str \<Rightarrow> (handle \<Rightarrow> call) \<Rightarrow> trace \<Rightarrow> reply \<times> trace" where
  "imap_call lib self name mk tr =
     (case imap self of
        None \<Rightarrow> (Raises (no_attribute ''NoneType'' name), tr)
      | Some h \<Rightarrow> invoke lib (mk h) tr)"

text \<open>
  \<open>except Exception as e: raise RuntimeError(f"<prefix>{e}")\<close>: what leaves the
  \<open>try\<close> block when its body raised \<open>e\<close>.
\<close>

definition except_Exception :: "str \<Rightarrow> py_exc \<Rightarrow> py_exc" where
  "except_Exception prefix e =
     (if subclass_Exception (class_of e) then Exc RuntimeError (prefix @ str_of e) else e)"

definition not_connected :: py_exc where
  "not_connected = Exc ConnectionError ''Not connected to IMAP server''"

definition is_logged :: "library \<Rightarrow> IMAP4_Client \<Rightarrow> trace \<Rightarrow> (py_exc + bool) \<times> IMAP4_Client \<times> trace" where
  "is_logged lib self tr =
     (case imap self of
        None \<Rightarrow> (Inr False, self, tr)
      | Some h \<Rightarrow>
          (case invoke lib (NOOP h) tr of
             (Returns status data, tr1) \<Rightarrow> (Inr True, self, tr1)
           | (Raises e, tr1) \<Rightarrow>
               if subclass_IMAP4_error (class_of e) then (Inr False, self, tr1)
               else (Inl e, self, tr1)))"

text \<open>
  \<open>connect\<close>. The new handle is named by the position of its constructor call in the
  trace. The handle is assigned before \<open>login\<close> is called, so a failed login leaves the
  new handle in the session; a failed constructor leaves the old one.
\<close>

definition connect :: "library \<Rightarrow> str \<Rightarrow> str \<Rightarrow> IMAP4_Client \<Rightarrow> trace \<Rightarrow> (py_exc + unit) \<times> IMAP4_Client \<times> trace" where
  "connect lib account password self tr =
     (case is_logged lib self tr of
        (Inl e, self1, tr1) \<Rightarrow> (Inl e, self1, tr1)
      | (Inr logged, self1, tr1) \<Rightarrow>
          if logged then (Inr (), self1, tr1)
          else
            (case invoke lib (IMAP4_SSL (host self1) (port self1) (sslcontext self1) (timeout self1)) tr1 of
               (Raises e, tr2) \<Rightarrow>
                 if subclass_IMAP4_error (class_of e)
                 then (Inl (Exc ConnectionError (''Failed to connect to IMAP server: '' @ str_of e)), self1, tr2)
                 else (Inl e, self1, tr2)
             | (Returns status data, tr2) \<Rightarrow>
                 (let self2 = self1\<lparr>imap := Some (length tr1)\<rparr> in
                  case invoke lib (LOGIN (length tr1) account password) tr2 of
                    (Raises e, tr3) \<Rightarrow>
                      if subclass_IMAP4_error (class_of e)
                      then (Inl (Exc ConnectionError (''Failed to connect to IMAP server: '' @ str_of e)), self2, tr3)
                      else (Inl e, self2, tr3)
                  | (Returns status1 data1, tr3) \<Rightarrow> (Inr (), self2, tr3))))"

definition disconnect :: "library \<Rightarrow> IMAP4_Client \<Rightarrow> trace \<Rightarrow> (py_exc + unit) \<times> IMAP4_Client \<times> trace" where
  "disconnect lib self tr =
     (case is_logged lib self tr of
        (Inl e, self1, tr1) \<Rightarrow> (Inl e, self1, tr1)
      | (Inr logged, self1, tr1) \<Rightarrow>
          if \<not> logged then (Inr (), self1, tr1)
          else
            (case imap_call lib self1 ''logout'' LOGOUT tr1 of
               (Raises e, tr2) \<Rightarrow> (Inl (except_Exception ''Error closing connection: '' e), self1, tr2)
             | (Returns status data, tr2) \<Rightarrow> (Inr (), self1, tr2)))"

text \<open>\<open>__exit__\<close>\<close>

definition exit_client :: "library \<Rightarrow> IMAP4_Client \<Rightarrow> trace \<Rightarrow> (py_exc + unit) \<times> IMAP4_Client \<times> trace" where
  "exit_client lib self tr = disconnect lib self tr"

text \<open>The text an f-string gives an optional string: \<open>None\<close> prints as \<open>None\<close>.\<close>

fun format_opt :: "str option \<Rightarrow> str" where
  "format_opt None = ''None''"
| "format_opt (Some s) = s"

definition select_mailbox :: "library \<Rightarrow> str option \<Rightarrow> IMAP4_Client \<Rightarrow> trace \<Rightarrow> (py_exc + unit) \<times> IMAP4_Client \<times> trace" where
  "select_mailbox lib mailbox self tr =
     (case is_logged lib self tr of
        (Inl e, self1, tr1) \<Rightarrow> (Inl e, self1, tr1)
      | (Inr logged, self1, tr1) \<Rightarrow>
          if \<not> logged then (Inl not_connected, self1, tr1)
          else
            (case imap_call lib self1 ''select'' (\<lambda>h. SELECT h mailbox) tr1 of
               (Raises e, tr2) \<Rightarrow>
                 (Inl (except_Exception (''Error selecting mailbox '' @ format_opt mailbox @ '': '') e), self1, tr2)
             | (Returns status data, tr2) \<Rightarrow> (Inr (), self1, tr2)))"

text \<open>\<open>data[0].split()\<close>\<close>

fun first_split :: "datum list \<Rightarrow> py_exc + bytes list" where
  "first_split [] = Inl index_out_of_range"
| "first_split (DBytes b # ds) = Inr (bytes_split b)"
| "first_split (DNone # ds) = Inl (no_attribute ''NoneType'' ''split'')"
| "first_split (DPair a b # ds) = Inl (no_attribute ''tuple'' ''split'')"

definition search_emails :: "library \<Rightarrow> str \<Rightarrow> IMAP4_Client \<Rightarrow> trace \<Rightarrow> (py_exc + bytes list) \<times> IMAP4_Client \<times> trace" where
  "search_emails lib criteria self tr =
     (case is_logged lib self tr of
        (Inl e, self1, tr1) \<Rightarrow> (Inl e, self1, tr1)
      | (Inr logged, self1, tr1) \<Rightarrow>
          if \<not> logged then (Inl not_connected, self1, tr1)
          else
            (case imap_call lib self1 ''search'' (\<lambda>h. SEARCH h None criteria) tr1 of
               (Raises e, tr2) \<Rightarrow> (Inl (except_Exception ''Error searching emails: '' e), self1, tr2)
             | (Returns status data, tr2) \<Rightarrow>
                 if status = ''OK'' then
                   (case first_split data of
                      Inl e \<Rightarrow> (Inl (except_Exception ''Error searching emails: '' e), self1, tr2)
                    | Inr uids \<Rightarrow> (Inr uids, self1, tr2))
                 else (Inr [], self1, tr2)))"

text \<open>\<open>data[::2]\<close>\<close>

fun every_other :: "'a list \<Rightarrow> 'a list" where
  "every_other [] = []"
| "every_other [x] = [x]"
| "every_other (x # y # xs) = x # every_other xs"

text \<open>
  \<open>for _, message in ...: message_from_bytes(message, policy=policy.default)\<close> on one
  item. A pair unpacks; \<open>None\<close> does not; a \<open>bytes\<close> object unpacks into its bytes as
  integers when it has exactly two, and the parser then fails on the integer.
\<close>

fun unpack_message :: "datum \<Rightarrow> py_exc + EmailMessage" where
  "unpack_message (DPair envelope message) = Inr (message_from_bytes message)"
| "unpack_message DNone = Inl (Exc TypeError ''cannot unpack non-iterable NoneType object'')"
| "unpack_message (DBytes b) =
     (if length b = 0 then Inl (Exc ValueError ''not enough values to unpack (expected 2, got 0)'')
      else if length b = 1 then Inl (Exc ValueError ''not enough values to unpack (expected 2, got 1)'')
      else if length b = 2 then Inl (no_attribute ''int'' ''decode'')
      else Inl (Exc ValueError ''too many values to unpack (expected 2)''))"

text \<open>The list comprehension over the items, from the left: the first failure raises.\<close>

fun unpack_messages :: "datum list \<Rightarrow> py_exc + EmailMessage list" where
  "unpack_messages [] = Inr []"
| "unpack_messages (d # ds) =
     (case unpack_message d of
        Inl e \<Rightarrow> Inl e
      | Inr m \<Rightarrow> (case unpack_messages ds of Inl e \<Rightarrow> Inl e | Inr ms \<Rightarrow> Inr (m # ms)))"

definition fetch_emails :: "library \<Rightarrow> str \<Rightarrow> IMAP4_Client \<Rightarrow> trace \<Rightarrow> (py_exc + EmailMessage list) \<times> IMAP4_Client \<times> trace" where
  "fetch_emails lib uids self tr =
     (case is_logged lib self tr of
        (Inl e, self1, tr1) \<Rightarrow> (Inl e, self1, tr1)
      | (Inr logged, self1, tr1) \<Rightarrow>
          if \<not> logged then (Inl not_connected, self1, tr1)
          else
            (case imap_call lib self1 ''fetch'' (\<lambda>h. FETCH h uids ''(RFC822)'') tr1 of
               (Raises e, tr2) \<Rightarrow>
                 (Inl (except_Exception (''Error fetching email UIDs '' @ uids @ '': '') e), self1, tr2)
             | (Returns status data, tr2) \<Rightarrow>
                 if status = ''OK'' then
                   (case unpack_messages (every_other data) of
                      Inl e \<Rightarrow>
                        (Inl (except_Exception (''Error fetching email UIDs '' @ uids @ '': '') e), self1, tr2)
                    | Inr messages \<Rightarrow> (Inr messages, self1, tr2))
                 else (Inr [], self1, tr2)))"

text \<open>
  \<open>store\<close> followed by \<open>expunge\<close> inside one \<open>try\<close> block, as \<open>delete_emails\<close> and
  \<open>move_emails\<close> both have it: \<open>expunge\<close> is reached only when \<open>store\<close> returned.
\<close>

definition delete_emails :: "library \<Rightarrow> str \<Rightarrow> IMAP4_Client \<Rightarrow> trace \<Rightarrow> (py_exc + unit) \<times> IMAP4_Client \<times> trace" where
  "delete_emails lib messages_uid self tr =
     (case is_logged lib self tr of
        (Inl e, self1, tr1) \<Rightarrow> (Inl e, self1, tr1)
      | (Inr logged, self1, tr1) \<Rightarrow>
          if \<not> logged then (Inl not_connected, self1, tr1)
          else
            (case imap_call lib self1 ''store''
                    (\<lambda>h. STORE h messages_uid ''+FLAGS'' (backslash # ''Deleted'')) tr1 of
               (Raises e, tr2) \<Rightarrow> (Inl (except_Exception ''Error retrieving mailboxes: '' e), self1, tr2)
             | (Returns status data, tr2) \<Rightarrow>
                 (case imap_call lib self1 ''expunge'' EXPUNGE tr2 of
                    (Raises e, tr3) \<Rightarrow> (Inl (except_Exception ''Error retrieving mailboxes: '' e), self1, tr3)
                  | (Returns status1 data1, tr3) \<Rightarrow> (Inr (), self1, tr3))))"

definition move_emails :: "library \<Rightarrow> str \<Rightarrow> str \<Rightarrow> IMAP4_Client \<Rightarrow> trace \<Rightarrow> (py_exc + unit) \<times> IMAP4_Client \<times> trace" where
  "move_emails lib messages_uid mailbox self tr =
     (case is_logged lib self tr of
        (Inl e, self1, tr1) \<Rightarrow> (Inl e, self1, tr1)
      | (Inr logged, self1, tr1) \<Rightarrow>
          if \<not> logged then (Inl not_connected, self1, tr1)
          else
            (case imap_call lib self1 ''store''
                    (\<lambda>h. STORE h messages_uid ''+FLAGS'' (backslash # mailbox)) tr1 of
               (Raises e, tr2) \<Rightarrow> (Inl (except_Exception ''Error retrieving mailboxes: '' e), self1, tr2)
             | (Returns status data, tr2) \<Rightarrow>
                 (case imap_call lib self1 ''expunge'' EXPUNGE tr2 of
                    (Raises e, tr3) \<Rightarrow> (Inl (except_Exception ''Error retrieving mailboxes: '' e), self1, tr3)
                  | (Returns status1 data1, tr3) \<Rightarrow> (Inr (), self1, tr3))))"

text \<open>The separator \<open>' "/" '\<close> of \<open>list_mailboxes\<close>.\<close>

definition delimiter :: str where
  "delimiter = '' '' @ [dquote] @ ''/'' @ [dquote] @ '' ''"

text \<open>\<open>mailbox.decode().split(' "/" ')[1]\<close> on one item of the listing.\<close>

fun mailbox_name :: "datum \<Rightarrow> py_exc + str" where
  "mailbox_name DNone = Inl (no_attribute ''NoneType'' ''decode'')"
| "mailbox_name (DPair a b) = Inl (no_attribute ''tuple'' ''decode'')"
| "mailbox_name (DBytes b) =
     (case decode b of
        Inl e \<Rightarrow> Inl e
      | Inr s \<Rightarrow>
          (let parts = str_split delimiter s
           in if 1 < length parts then Inr (parts ! 1) else Inl index_out_of_range))"

fun mailbox_names :: "datum list \<Rightarrow> py_exc + str list" where
  "mailbox_names [] = Inr []"
| "mailbox_names (d # ds) =
     (case mailbox_name d of
        Inl e \<Rightarrow> Inl e
      | Inr n \<Rightarrow> (case mailbox_names ds of Inl e \<Rightarrow> Inl e | Inr ns \<Rightarrow> Inr (n # ns)))"

definition list_mailboxes :: "library \<Rightarrow> bytes \<Rightarrow> bytes \<Rightarrow> IMAP4_Client \<Rightarrow> trace \<Rightarrow> (py_exc + str list) \<times> IMAP4_Client \<times> trace" where
  "list_mailboxes lib directory pattern self tr =
     (case is_logged lib self tr of
        (Inl e, self1, tr1) \<Rightarrow> (Inl e, self1, tr1)
      | (Inr logged, self1, tr1) \<Rightarrow>
          if \<not> logged then (Inl not_connected, self1, tr1)
          else
            (case imap_call lib self1 ''list'' (\<lambda>h. LIST h directory pattern) tr1 of
               (Raises e, tr2) \<Rightarrow> (Inl (except_Exception ''Error retrieving mailboxes: '' e), self1, tr2)
             | (Returns status data, tr2) \<Rightarrow>
                 if status = ''OK'' then
                   (case mailbox_names data of
                      Inl e \<Rightarrow> (Inl (except_Exception ''Error retrieving mailboxes: '' e), self1, tr2)
                    | Inr names \<Rightarrow> (Inr names, self1, tr2))
                 else (Inr [], self1, tr2)))"

definition rename_mailbox :: "library \<Rightarrow> str \<Rightarrow> str \<Rightarrow> IMAP4_Client \<Rightarrow> trace \<Rightarrow> (py_exc + unit) \<times> IMAP4_Client \<times> trace" where
  "rename_mailbox lib old_mailbox new_mailbox self tr =
     (case is_logged lib self tr of
        (Inl e, self1, tr1) \<Rightarrow> (Inl e, self1, tr1)
      | (Inr logged, self1, tr1) \<Rightarrow>
          if \<not> logged then (Inl not_connected, self1, tr1)
          else
            (case imap_call lib self1 ''rename'' (\<lambda>h. RENAME h old_mailbox new_mailbox) tr1 of
               (Raises e, tr2) \<Rightarrow> (Inl (except_Exception ''Error retrieving mailboxes: '' e), self1, tr2)
             | (Returns status data, tr2) \<Rightarrow> (Inr (), self1, tr2)))"

definition new_mailbox :: "library \<Rightarrow> str \<Rightarrow> IMAP4_Client \<Rightarrow> trace \<Rightarrow> (py_exc + unit) \<times> IMAP4_Client \<times> trace" where
  "new_mailbox lib mailbox self tr =
     (case is_logged lib self tr of
        (Inl e, self1, tr1) \<Rightarrow> (Inl e, self1, tr1)
      | (Inr logged, self1, tr1) \<Rightarrow>
          if \<not> logged then (Inl not_connected, self1, tr1)
          else
            (case imap_call lib self1 ''create'' (\<lambda>h. CREATE h mailbox) tr1 of
               (Raises e, tr2) \<Rightarrow> (Inl (except_Exception ''Error retrieving mailboxes: '' e), self1, tr2)
             | (Returns status data, tr2) \<Rightarrow> (Inr (), self1, tr2)))"

definition delete_mailbox :: "library \<Rightarrow> str \<Rightarrow> IMAP4_Client \<Rightarrow> trace \<Rightarrow> (py_exc + unit) \<times> IMAP4_Client \<times> trace" where
  "delete_mailbox lib mailbox self tr =
     (case is_logged lib self tr of
        (Inl e, self1, tr1) \<Rightarrow> (Inl e, self1, tr1)
      | (Inr logged, self1, tr1) \<Rightarrow>
          if \<not> logged then (Inl not_connected, self1, tr1)
          else
            (case imap_call lib self1 ''delete'' (\<lambda>h. DELETE h mailbox) tr1 of
               (Raises e, tr2) \<Rightarrow> (Inl (except_Exception ''Error retrieving mailboxes: '' e), self1, tr2)
             | (Returns status data, tr2) \<Rightarrow> (Inr (), self1, tr2)))"

section \<open>The batch fetch orchestrator: \<open>get_emails\<close>\<close>

text \<open>
  The body of the \<open>for\<close> loop of \<open>get_emails\<close>, run over the indices of the range:
  slice, decode and join, fetch, extend. An exception ends the loop.
\<close>

fun get_emails_loop :: "library \<Rightarrow> bytes list \<Rightarrow> nat \<Rightarrow> nat list \<Rightarrow> EmailMessage list \<Rightarrow> IMAP4_Client \<Rightarrow> trace \<Rightarrow> (py_exc + EmailMessage list) \<times> IMAP4_Client \<times> trace" where
  "get_emails_loop lib emails_uids batch_size [] emails client tr = (Inr emails, client, tr)"
| "get_emails_loop lib emails_uids batch_size (index # rest) emails client tr =
     (let batch_uids = take batch_size (drop index emails_uids)
      in case decode_all batch_uids of
           Inl e \<Rightarrow> (Inl e, client, tr)
         | Inr strs \<Rightarrow>
             (let uids_str = str_join '','' strs
              in case fetch_emails lib uids_str client tr of
                   (Inl e, client1, tr1) \<Rightarrow> (Inl e, client1, tr1)
                 | (Inr batch_emails, client1, tr1) \<Rightarrow>
                     get_emails_loop lib emails_uids batch_size rest (emails @ batch_emails) client1 tr1))"

text \<open>Lines 39 to 46: the empty list, the range, the loop.\<close>

definition get_emails_batches :: "library \<Rightarrow> bytes list \<Rightarrow> int \<Rightarrow> IMAP4_Client \<Rightarrow> trace \<Rightarrow> (py_exc + EmailMessage list) \<times> IMAP4_Client \<times> trace" where
  "get_emails_batches lib emails_uids batch_size client tr =
     (case py_range0 (length emails_uids) batch_size of
        Inl e \<Rightarrow> (Inl e, client, tr)
      | Inr indices \<Rightarrow> get_emails_loop lib emails_uids (nat batch_size) indices [] client tr)"

text \<open>The body of the \<open>with\<close> statement of \<open>get_emails\<close>.\<close>

definition get_emails_body :: "library \<Rightarrow> str \<Rightarrow> str \<Rightarrow> str option \<Rightarrow> str \<Rightarrow> int \<Rightarrow> IMAP4_Client \<Rightarrow> trace \<Rightarrow> (py_exc + EmailMessage list) \<times> IMAP4_Client \<times> trace" where
  "get_emails_body lib USERNAME PASSWORD mailbox criteria batch_size client tr =
     (case connect lib USERNAME PASSWORD client tr of
        (Inl e, client1, tr1) \<Rightarrow> (Inl e, client1, tr1)
      | (Inr u, client1, tr1) \<Rightarrow>
          (case select_mailbox lib mailbox client1 tr1 of
             (Inl e, client2, tr2) \<Rightarrow> (Inl e, client2, tr2)
           | (Inr u1, client2, tr2) \<Rightarrow>
               (case search_emails lib criteria client2 tr2 of
                  (Inl e, client3, tr3) \<Rightarrow> (Inl e, client3, tr3)
                | (Inr emails_uids, client3, tr3) \<Rightarrow>
                    get_emails_batches lib emails_uids batch_size client3 tr3)))"

text \<open>
  \<open>get_emails\<close>: the \<open>with\<close> statement builds the client, runs the body and calls
  \<open>__exit__\<close> however the body ended; an exception of \<open>__exit__\<close> replaces the body's.
  The environment's \<open>IMAP_SERVER\<close>, \<open>USERNAME\<close> and \<open>PASSWORD\<close> are parameters.
\<close>

definition get_emails :: "library \<Rightarrow> str \<Rightarrow> str \<Rightarrow> str \<Rightarrow> str option \<Rightarrow> str \<Rightarrow> int \<Rightarrow> trace \<Rightarrow> (py_exc + EmailMessage list) \<times> IMAP4_Client \<times> trace" where
  "get_emails lib IMAP_SERVER USERNAME PASSWORD mailbox criteria batch_size tr =
     (case get_emails_body lib USERNAME PASSWORD mailbox criteria batch_size
             (init IMAP_SERVER 993 None None) tr of
        (result, client1, tr1) \<Rightarrow>
          (case exit_client lib client1 tr1 of
             (Inl e, client2, tr2) \<Rightarrow> (Inl e, client2, tr2)
           | (Inr u, client2, tr2) \<Rightarrow> (result, client2, tr2)))"

section \<open>Sample servers and sessions\<close>

text \<open>A session that was never connected, and one that holds the handle 0.\<close>

definition fresh :: IMAP4_Client where
  "fresh = init ''imap.example.org'' 993 None None"

definition held :: IMAP4_Client where
  "held = fresh\<lparr>imap := Some 0\<rparr>"

text \<open>A server that accepts every call with \<open>("OK", [])\<close>.\<close>

definition server_ok :: library where
  "server_ok hist = Returns ''OK'' []"


text \<open>A connection that dropped: every call raises \<open>IMAP4.abort\<close>.\<close>

definition server_dead :: library where
  "server_dead hist = Raises (Exc IMAP4_abort ''socket error: EOF'')"


text \<open>A host name that does not resolve: the constructor raises \<open>socket.gaierror\<close>.\<close>

definition server_unreachable :: library where
  "server_unreachable hist = Raises (Exc gaierror ''[Errno -2] Name or service not known'')"

text \<open>A server that refuses the credentials: \<open>login\<close> raises \<open>IMAP4.error\<close>.\<close>

definition server_bad_login :: library where
  "server_bad_login hist =
     (case last hist of
        LOGIN h account password \<Rightarrow> Raises (Exc IMAP4_error ''[AUTHENTICATIONFAILED] Invalid credentials'')
      | _ \<Rightarrow> Returns ''OK'' [])"

text \<open>A library whose connection is closed by \<open>logout\<close>: later calls raise \<open>IMAP4.abort\<close>.\<close>

fun is_LOGOUT :: "call \<Rightarrow> bool" where
  "is_LOGOUT (LOGOUT h) = True"
| "is_LOGOUT c = False"

definition server_logout_closes :: library where
  "server_logout_closes hist =
     (if list_ex is_LOGOUT (butlast hist) then Raises (Exc IMAP4_abort ''socket error: EOF'')
      else Returns ''OK'' [])"


text \<open>
  A server that refuses the credentials and goes on answering: \<open>login\<close> raises
  \<open>IMAP4.error\<close>, the probe and \<open>logout\<close> are answered, and \<open>imaplib\<close> raises
  \<open>IMAP4.error\<close> on every other command, which the state before authentication does
  not allow.
\<close>

definition illegal_in_NONAUTH :: "str \<Rightarrow> str \<Rightarrow> reply" where
  "illegal_in_NONAUTH name states =
     Raises (Exc IMAP4_error
       (''command '' @ name @ '' illegal in state NONAUTH, only allowed in states '' @ states))"

definition server_refuses_login :: library where
  "server_refuses_login hist =
     (case last hist of
        IMAP4_SSL h p ctx t \<Rightarrow> Returns ''OK'' []
      | LOGIN h account password \<Rightarrow>
          Raises (Exc IMAP4_error ''[AUTHENTICATIONFAILED] Invalid credentials'')
      | LOGOUT h \<Rightarrow> Returns ''BYE'' []
      | NOOP h \<Rightarrow> Returns ''OK'' []
      | SELECT h mailbox \<Rightarrow> illegal_in_NONAUTH ''SELECT'' ''AUTH, SELECTED''
      | SEARCH h charset criteria \<Rightarrow> illegal_in_NONAUTH ''SEARCH'' ''SELECTED''
      | FETCH h uids parts \<Rightarrow> illegal_in_NONAUTH ''FETCH'' ''SELECTED''
      | STORE h uids command flags \<Rightarrow> illegal_in_NONAUTH ''STORE'' ''SELECTED''
      | EXPUNGE h \<Rightarrow> illegal_in_NONAUTH ''EXPUNGE'' ''SELECTED''
      | LIST h directory pattern \<Rightarrow> illegal_in_NONAUTH ''LIST'' ''AUTH, SELECTED''
      | RENAME h old new \<Rightarrow> illegal_in_NONAUTH ''RENAME'' ''AUTH, SELECTED''
      | CREATE h mailbox \<Rightarrow> illegal_in_NONAUTH ''CREATE'' ''AUTH, SELECTED''
      | DELETE h mailbox \<Rightarrow> illegal_in_NONAUTH ''DELETE'' ''AUTH, SELECTED'')"


text \<open>The two listing lines \<open>(\HasNoChildren) "/" "INBOX"\<close> and \<open>(\HasNoChildren) "/" "Sent"\<close>.\<close>

definition listing_line :: "str \<Rightarrow> bytes" where
  "listing_line name =
     ''('' @ [backslash] @ ''HasNoChildren) '' @ [dquote] @ ''/'' @ [dquote] @ '' ''
     @ [dquote] @ name @ [dquote]"

definition server_two_mailboxes :: library where
  "server_two_mailboxes hist =
     (case last hist of
        LIST h directory pattern \<Rightarrow>
          Returns ''OK'' [DBytes (listing_line ''INBOX''), DBytes (listing_line ''Sent'')]
      | _ \<Rightarrow> Returns ''OK'' [])"

text \<open>
  A server that answers a fetch with one message per identifier asked for, each a
  literal followed by the closing parenthesis, as \<open>imaplib\<close> returns them.
\<close>

definition server_one_each :: library where
  "server_one_each hist =
     (case last hist of
        FETCH h uids parts \<Rightarrow>
          Returns ''OK''
            (concat (map (\<lambda>uid. [DPair (uid @ '' (RFC822 {4}'') (''mail'' @ uid), DBytes '')''])
                         (str_split '','' uids)))
      | _ \<Rightarrow> Returns ''OK'' [])"

text \<open>
  A server that finds the one message 7 on every search and answers every fetch with two
  messages, whatever was asked for.
\<close>

definition server_two_always :: library where
  "server_two_always hist =
     (case last hist of
        FETCH h uids parts \<Rightarrow>
          Returns ''OK''
            [DPair ''1 (RFC822 {1}'' ''a'', DBytes '')'', DPair ''2 (RFC822 {1}'' ''b'', DBytes '')'']
      | SEARCH h charset criteria \<Rightarrow> Returns ''OK'' [DBytes ''7'']
      | _ \<Rightarrow> Returns ''OK'' [])"

text \<open>
  One \<open>fetch_emails\<close> call per identifier string, in order, each call's result kept
  apart; the first call that raises ends the run. This is the orchestrator as the
  specification words it: one fetch per window, the results appended in window order.
\<close>

fun fetch_each :: "library \<Rightarrow> str list \<Rightarrow> IMAP4_Client \<Rightarrow> trace \<Rightarrow> (py_exc + EmailMessage list list) \<times> IMAP4_Client \<times> trace" where
  "fetch_each lib [] client tr = (Inr [], client, tr)"
| "fetch_each lib (uids # rest) client tr =
     (case fetch_emails lib uids client tr of
        (Inl e, client1, tr1) \<Rightarrow> (Inl e, client1, tr1)
      | (Inr batch, client1, tr1) \<Rightarrow>
          (case fetch_each lib rest client1 tr1 of
             (Inl e, client2, tr2) \<Rightarrow> (Inl e, client2, tr2)
           | (Inr batches, client2, tr2) \<Rightarrow> (Inr (batch # batches), client2, tr2)))"

text \<open>
  The library calls of one successful \<open>fetch_emails\<close> call per identifier string on the
  handle \<open>h\<close>: the probe, then the fetch.
\<close>

definition fetch_calls :: "handle \<Rightarrow> str list \<Rightarrow> call list" where
  "fetch_calls h us = concat (map (\<lambda>uids. [NOOP h, FETCH h uids ''(RFC822)'']) us)"

text \<open>
  The windows in front of the first one that holds an identifier \<open>decode\<close> rejects, and
  the exception that window raises, if there is one.
\<close>

fun decodable_prefix :: "bytes list list \<Rightarrow> bytes list list" where
  "decodable_prefix [] = []"
| "decodable_prefix (w # ws) =
     (case decode_all w of Inl e \<Rightarrow> [] | Inr strs \<Rightarrow> w # decodable_prefix ws)"

fun first_undecodable :: "bytes list list \<Rightarrow> py_exc option" where
  "first_undecodable [] = None"
| "first_undecodable (w # ws) =
     (case decode_all w of Inl e \<Rightarrow> Some e | Inr strs \<Rightarrow> first_undecodable ws)"

text \<open>The windows of the loop: the slice taken at each index of the range.\<close>

definition windows :: "'a list \<Rightarrow> nat \<Rightarrow> 'a list list" where
  "windows xs b = map (\<lambda>index. take b (drop index xs)) (range_up 0 (length xs) b)"

section \<open>Properties\<close>

subsection \<open>The health probe\<close>

text \<open>
  \<open>is_logged\<close> returns \<open>True\<close> when the session holds a handle and the keep-alive
  probe on it returned. It returns \<open>False\<close> when the session holds no handle, and then
  nothing is called, or when the probe raised \<open>IMAP4.error\<close>. Any other exception of
  the probe leaves \<open>is_logged\<close> as it is.
\<close>

lemma is_logged_True:
  assumes "fst (is_logged lib self tr) = Inr True"
  shows "\<exists>h. imap self = Some h \<and> is_logged lib self tr = (Inr True, self, tr @ [NOOP h])"
  using assms
  by (auto simp: is_logged_def invoke_def split: option.splits reply.splits if_splits)

lemma is_logged_False:
  assumes "fst (is_logged lib self tr) = Inr False"
  shows "is_logged lib self tr =
           (Inr False, self, case imap self of None \<Rightarrow> tr | Some h \<Rightarrow> tr @ [NOOP h])"
  using assms
  by (auto simp: is_logged_def invoke_def split: option.splits reply.splits if_splits)

subsection \<open>Connecting twice\<close>

text \<open>
  Claim C7. On a session that is already authenticated, \<open>connect\<close> returns at once
  without an error: the only call into the library is the keep-alive probe of
  \<open>is_logged\<close> (no constructor call, so no new handshake, and no login), and the
  session, its connection handle included, is unchanged.
\<close>

theorem connect_idempotent:
  assumes "fst (is_logged lib self tr) = Inr True"
  shows "\<exists>h. imap self = Some h \<and>
           connect lib account password self tr = (Inr (), self, tr @ [NOOP h])"
proof -
  from is_logged_True [OF assms] obtain h where
    h: "imap self = Some h" and l: "is_logged lib self tr = (Inr True, self, tr @ [NOOP h])"
    by blast
  show ?thesis using h l by (simp add: connect_def)
qed

theorem connect_idempotent_witness:
  "fst (is_logged server_ok held []) = Inr True \<and>
   connect server_ok ''user'' ''secret'' held [] = (Inr (), held, [NOOP 0]) \<and>
   imap held = Some 0"
  using connect_idempotent [of server_ok held "[]" "''user''" "''secret''"]
  by (simp add: is_logged_def invoke_def server_ok_def held_def fresh_def init_def)

subsection \<open>Moving and deleting messages\<close>

text \<open>
  Claim C6. For every identifier string and every target name, \<open>move_emails\<close> on an
  authenticated session calls \<open>store\<close> with \<open>+FLAGS\<close> and the target name behind a
  backslash, as if the name were a flag, and then, when \<open>store\<close> returned, \<open>expunge\<close>.
  These are all its calls after the probe: it copies or moves nothing to the target
  mailbox. An exception of either call becomes the runtime error and ends the operation.
\<close>

theorem move_emails_sets_flag_and_expunges:
  assumes "fst (is_logged lib self tr) = Inr True"
  shows "\<exists>h. imap self = Some h \<and>
           move_emails lib uids target self tr =
             (case lib (tr @ [NOOP h, STORE h uids ''+FLAGS'' (backslash # target)]) of
                Raises e \<Rightarrow>
                  (Inl (except_Exception ''Error retrieving mailboxes: '' e), self,
                   tr @ [NOOP h, STORE h uids ''+FLAGS'' (backslash # target)])
              | Returns status data \<Rightarrow>
                  (case lib (tr @ [NOOP h, STORE h uids ''+FLAGS'' (backslash # target), EXPUNGE h]) of
                     Raises e \<Rightarrow>
                       (Inl (except_Exception ''Error retrieving mailboxes: '' e), self,
                        tr @ [NOOP h, STORE h uids ''+FLAGS'' (backslash # target), EXPUNGE h])
                   | Returns status1 data1 \<Rightarrow>
                       (Inr (), self,
                        tr @ [NOOP h, STORE h uids ''+FLAGS'' (backslash # target), EXPUNGE h])))"
proof -
  from is_logged_True [OF assms] obtain h where
    h: "imap self = Some h" and l: "is_logged lib self tr = (Inr True, self, tr @ [NOOP h])"
    by blast
  show ?thesis using h l
    by (simp add: move_emails_def imap_call_def invoke_def split: reply.splits)
qed

theorem move_emails_sets_flag_and_expunges_witness:
  "fst (is_logged server_ok held []) = Inr True \<and>
   move_emails server_ok ''5,6'' ''Archive'' held [] =
     (Inr (), held, [NOOP 0, STORE 0 ''5,6'' ''+FLAGS'' (backslash # ''Archive''), EXPUNGE 0])"
  using move_emails_sets_flag_and_expunges [of server_ok held "[]" "''5,6''" "''Archive''"]
  by (simp add: is_logged_def invoke_def server_ok_def held_def fresh_def init_def)

text \<open>
  Claim C10. For every identifier string \<open>u\<close>, \<open>move_emails(u, "Deleted")\<close> and
  \<open>delete_emails(u)\<close> are the same operation: on every library, session and trace they
  give the same result, the same session and the same calls. On an authenticated
  session these calls are the probe, then \<open>store\<close> of \<open>+FLAGS\<close> \<open>\Deleted\<close> on \<open>u\<close>,
  then \<open>expunge\<close> when \<open>store\<close> returned.
\<close>

theorem move_to_Deleted_is_delete_emails:
  "move_emails lib u ''Deleted'' self tr = delete_emails lib u self tr \<and>
   (fst (is_logged lib self tr) = Inr True \<longrightarrow>
      (\<exists>h. imap self = Some h \<and>
         snd (snd (delete_emails lib u self tr)) =
           tr @ [NOOP h, STORE h u ''+FLAGS'' (backslash # ''Deleted'')]
              @ (case lib (tr @ [NOOP h, STORE h u ''+FLAGS'' (backslash # ''Deleted'')]) of
                   Raises e \<Rightarrow> []
                 | Returns status data \<Rightarrow> [EXPUNGE h])))"
proof (intro conjI impI)
  show "move_emails lib u ''Deleted'' self tr = delete_emails lib u self tr"
    by (simp add: move_emails_def delete_emails_def)
next
  assume a: "fst (is_logged lib self tr) = Inr True"
  from is_logged_True [OF a] obtain h where
    h: "imap self = Some h" and l: "is_logged lib self tr = (Inr True, self, tr @ [NOOP h])"
    by blast
  show "\<exists>h. imap self = Some h \<and>
         snd (snd (delete_emails lib u self tr)) =
           tr @ [NOOP h, STORE h u ''+FLAGS'' (backslash # ''Deleted'')]
              @ (case lib (tr @ [NOOP h, STORE h u ''+FLAGS'' (backslash # ''Deleted'')]) of
                   Raises e \<Rightarrow> []
                 | Returns status data \<Rightarrow> [EXPUNGE h])"
    using h l
    by (simp add: delete_emails_def imap_call_def invoke_def split: reply.splits)
qed

theorem move_to_Deleted_is_delete_emails_witness:
  "fst (is_logged server_ok held []) = Inr True \<and>
   move_emails server_ok ''5,6'' ''Deleted'' held [] = delete_emails server_ok ''5,6'' held [] \<and>
   delete_emails server_ok ''5,6'' held [] =
     (Inr (), held, [NOOP 0, STORE 0 ''5,6'' ''+FLAGS'' (backslash # ''Deleted''), EXPUNGE 0])"
  using move_to_Deleted_is_delete_emails [of server_ok "''5,6''" held "[]"]
  by (simp add: is_logged_def delete_emails_def imap_call_def invoke_def server_ok_def
        held_def fresh_def init_def)

subsection \<open>Operations behind the gate\<close>

text \<open>
  \<open>is_logged\<close> returns \<open>False\<close> exactly on a session that holds no handle or whose
  probe raises \<open>IMAP4.error\<close>. It does not ask whether a login ever succeeded.
\<close>

lemma is_logged_False_iff:
  "fst (is_logged lib self tr) = Inr False \<longleftrightarrow>
     imap self = None \<or>
     (\<exists>h e. imap self = Some h \<and> lib (tr @ [NOOP h]) = Raises e \<and>
            subclass_IMAP4_error (class_of e))"
  by (auto simp: is_logged_def invoke_def split: option.splits reply.splits if_splits)

text \<open>
  Claim C2, as the specification has it: every mailbox, search, fetch and mutation
  operation called on a session that is not authenticated fails with \<open>ConnectionError\<close>
  and performs no network I/O. Both halves fail. On a session that holds a handle whose
  connection dropped, \<open>is_logged\<close> sends its keep-alive probe on the handle, the probe
  raises, and only then does the operation fail: the trace is not empty. And a session
  whose login was refused is not authenticated, yet it holds the new handle and the probe
  on it is answered: \<open>select_mailbox\<close> passes the gate, sends its command and fails
  with \<open>RuntimeError\<close>.
\<close>

theorem unauthenticated_probe_is_io_counterexample:
  "fst (is_logged server_dead held []) = Inr False \<and>
   select_mailbox server_dead (Some ''INBOX'') held [] =
     (Inl (Exc ConnectionError ''Not connected to IMAP server''), held, [NOOP 0]) \<and>
   [NOOP 0] \<noteq> ([] :: trace) \<and>
   connect server_refuses_login ''user'' ''wrong'' fresh [] =
     (Inl (Exc ConnectionError
             ''Failed to connect to IMAP server: [AUTHENTICATIONFAILED] Invalid credentials''),
      fresh\<lparr>imap := Some 0\<rparr>,
      [IMAP4_SSL ''imap.example.org'' 993 None None, LOGIN 0 ''user'' ''wrong'']) \<and>
   select_mailbox server_refuses_login (Some ''INBOX'') (fresh\<lparr>imap := Some 0\<rparr>)
       [IMAP4_SSL ''imap.example.org'' 993 None None, LOGIN 0 ''user'' ''wrong''] =
     (Inl (Exc RuntimeError
             (''Error selecting mailbox INBOX: ''
              @ ''command SELECT illegal in state NONAUTH, only allowed in states AUTH, SELECTED'')),
      fresh\<lparr>imap := Some 0\<rparr>,
      [IMAP4_SSL ''imap.example.org'' 993 None None, LOGIN 0 ''user'' ''wrong'',
       NOOP 0, SELECT 0 (Some ''INBOX'')]) \<and>
   \<not> subclass_ConnectionError RuntimeError"
  by (simp add: select_mailbox_def connect_def is_logged_def imap_call_def invoke_def
        except_Exception_def server_dead_def server_refuses_login_def illegal_in_NONAUTH_def
        held_def fresh_def init_def not_connected_def)

text \<open>
  Claim C2, amended. Each of \<open>select_mailbox\<close>, \<open>search_emails\<close>, \<open>fetch_emails\<close>,
  \<open>delete_emails\<close>, \<open>move_emails\<close>, \<open>list_mailboxes\<close>, \<open>new_mailbox\<close>,
  \<open>rename_mailbox\<close> and \<open>delete_mailbox\<close>, called on a session on which \<open>is_logged\<close>
  returns \<open>False\<close> (the session holds no handle, or the keep-alive probe on its handle
  raises \<open>IMAP4.error\<close>), fails with \<open>ConnectionError\<close> and leaves the session
  unchanged. Its own command is never sent: nothing at all is called when the session
  holds no handle, and the probe is the only call when it holds one. Nothing is said of
  a session whose probe is answered or raises another exception, authenticated or not.
\<close>

theorem unauthenticated_fails_with_ConnectionError:
  assumes "fst (is_logged lib self tr) = Inr False"
  shows "select_mailbox lib mailbox self tr =
           (Inl (Exc ConnectionError ''Not connected to IMAP server''), self,
            case imap self of None \<Rightarrow> tr | Some h \<Rightarrow> tr @ [NOOP h])
       \<and> search_emails lib criteria self tr =
           (Inl (Exc ConnectionError ''Not connected to IMAP server''), self,
            case imap self of None \<Rightarrow> tr | Some h \<Rightarrow> tr @ [NOOP h])
       \<and> fetch_emails lib uids self tr =
           (Inl (Exc ConnectionError ''Not connected to IMAP server''), self,
            case imap self of None \<Rightarrow> tr | Some h \<Rightarrow> tr @ [NOOP h])
       \<and> delete_emails lib uids self tr =
           (Inl (Exc ConnectionError ''Not connected to IMAP server''), self,
            case imap self of None \<Rightarrow> tr | Some h \<Rightarrow> tr @ [NOOP h])
       \<and> move_emails lib uids target self tr =
           (Inl (Exc ConnectionError ''Not connected to IMAP server''), self,
            case imap self of None \<Rightarrow> tr | Some h \<Rightarrow> tr @ [NOOP h])
       \<and> list_mailboxes lib directory pattern self tr =
           (Inl (Exc ConnectionError ''Not connected to IMAP server''), self,
            case imap self of None \<Rightarrow> tr | Some h \<Rightarrow> tr @ [NOOP h])
       \<and> new_mailbox lib name self tr =
           (Inl (Exc ConnectionError ''Not connected to IMAP server''), self,
            case imap self of None \<Rightarrow> tr | Some h \<Rightarrow> tr @ [NOOP h])
       \<and> rename_mailbox lib name name' self tr =
           (Inl (Exc ConnectionError ''Not connected to IMAP server''), self,
            case imap self of None \<Rightarrow> tr | Some h \<Rightarrow> tr @ [NOOP h])
       \<and> delete_mailbox lib name self tr =
           (Inl (Exc ConnectionError ''Not connected to IMAP server''), self,
            case imap self of None \<Rightarrow> tr | Some h \<Rightarrow> tr @ [NOOP h])"
  using is_logged_False [OF assms]
  by (simp add: select_mailbox_def search_emails_def fetch_emails_def delete_emails_def
        move_emails_def list_mailboxes_def new_mailbox_def rename_mailbox_def
        delete_mailbox_def not_connected_def)

theorem unauthenticated_fails_with_ConnectionError_witness:
  "fst (is_logged server_ok fresh []) = Inr False \<and>
   select_mailbox server_ok (Some ''INBOX'') fresh [] =
     (Inl (Exc ConnectionError ''Not connected to IMAP server''), fresh, []) \<and>
   search_emails server_ok ''ALL'' fresh [] =
     (Inl (Exc ConnectionError ''Not connected to IMAP server''), fresh, []) \<and>
   fetch_emails server_ok ''1,2'' fresh [] =
     (Inl (Exc ConnectionError ''Not connected to IMAP server''), fresh, []) \<and>
   delete_emails server_ok ''1,2'' fresh [] =
     (Inl (Exc ConnectionError ''Not connected to IMAP server''), fresh, []) \<and>
   move_emails server_ok ''1,2'' ''Archive'' fresh [] =
     (Inl (Exc ConnectionError ''Not connected to IMAP server''), fresh, []) \<and>
   list_mailboxes server_ok [] ''*'' fresh [] =
     (Inl (Exc ConnectionError ''Not connected to IMAP server''), fresh, []) \<and>
   new_mailbox server_ok ''Work'' fresh [] =
     (Inl (Exc ConnectionError ''Not connected to IMAP server''), fresh, []) \<and>
   rename_mailbox server_ok ''Work'' ''Job'' fresh [] =
     (Inl (Exc ConnectionError ''Not connected to IMAP server''), fresh, []) \<and>
   delete_mailbox server_ok ''Work'' fresh [] =
     (Inl (Exc ConnectionError ''Not connected to IMAP server''), fresh, []) \<and>
   fst (is_logged server_dead held []) = Inr False \<and>
   fetch_emails server_dead ''1,2'' held [] =
     (Inl (Exc ConnectionError ''Not connected to IMAP server''), held, [NOOP 0])"
  using unauthenticated_fails_with_ConnectionError
          [of server_ok fresh "[]" "Some ''INBOX''" "''ALL''" "''1,2''" "''Archive''" "[]" "''*''"
              "''Work''" "''Job''"]
        unauthenticated_fails_with_ConnectionError
          [of server_dead held "[]" "Some ''INBOX''" "''ALL''" "''1,2''" "''Archive''" "[]" "''*''"
              "''Work''" "''Job''"]
  by (simp add: is_logged_def invoke_def server_dead_def held_def fresh_def init_def)

subsection \<open>Replies that are not OK\<close>









subsection \<open>Failures while connecting\<close>

text \<open>
  Claim C4, as the specification has it: every failure while the connection is set up
  or the account is authenticated, a network failure included, makes \<open>connect\<close> fail
  with \<open>ConnectionError\<close>. The \<open>except\<close> clause of \<open>connect\<close> names \<open>IMAP4.error\<close>
  only. A host name that does not resolve makes the constructor raise
  \<open>socket.gaierror\<close>, which is an \<open>OSError\<close> and no \<open>ConnectionError\<close>, and it leaves
  \<open>connect\<close> as it is.
\<close>

theorem connect_network_failure_counterexample:
  "connect server_unreachable ''user'' ''secret'' fresh [] =
     (Inl (Exc gaierror ''[Errno -2] Name or service not known''), fresh,
      [IMAP4_SSL ''imap.example.org'' 993 None None]) \<and>
   \<not> subclass_ConnectionError gaierror"
  by (simp add: connect_def is_logged_def invoke_def server_unreachable_def fresh_def init_def)


text \<open>
  Claim C4, amended. On a session that is not authenticated, when the constructor or
  \<open>login\<close> raises an instance of \<open>IMAP4.error\<close> (a protocol or authentication
  failure), \<open>connect\<close> fails with \<open>ConnectionError\<close>, whose text ends with the text of
  the cause; an exception of any other class leaves \<open>connect\<close> unchanged. After a
  failed constructor the session is as before; after a failed login it holds the new
  handle.
\<close>

theorem connect_wraps_IMAP4_error:
  assumes "fst (is_logged lib self tr) = Inr False"
      and "tr1 = (case imap self of None \<Rightarrow> tr | Some h \<Rightarrow> tr @ [NOOP h])"
      and "new = IMAP4_SSL (host self) (port self) (sslcontext self) (timeout self)"
  shows "(\<forall>e. lib (tr1 @ [new]) = Raises e \<longrightarrow>
            connect lib account password self tr =
              (Inl (if subclass_IMAP4_error (class_of e)
                    then Exc ConnectionError (''Failed to connect to IMAP server: '' @ str_of e)
                    else e),
               self, tr1 @ [new])) \<and>
         (\<forall>status data e.
            lib (tr1 @ [new]) = Returns status data \<and>
            lib (tr1 @ [new, LOGIN (length tr1) account password]) = Raises e \<longrightarrow>
            connect lib account password self tr =
              (Inl (if subclass_IMAP4_error (class_of e)
                    then Exc ConnectionError (''Failed to connect to IMAP server: '' @ str_of e)
                    else e),
               self\<lparr>imap := Some (length tr1)\<rparr>,
               tr1 @ [new, LOGIN (length tr1) account password]))"
  using is_logged_False [OF assms(1)] assms(2,3)
  by (simp add: connect_def invoke_def)

theorem connect_wraps_IMAP4_error_witness:
  "fst (is_logged server_bad_login fresh []) = Inr False \<and>
   server_bad_login [IMAP4_SSL ''imap.example.org'' 993 None None] = Returns ''OK'' [] \<and>
   server_bad_login [IMAP4_SSL ''imap.example.org'' 993 None None, LOGIN 0 ''user'' ''wrong''] =
     Raises (Exc IMAP4_error ''[AUTHENTICATIONFAILED] Invalid credentials'') \<and>
   connect server_bad_login ''user'' ''wrong'' fresh [] =
     (Inl (Exc ConnectionError
             ''Failed to connect to IMAP server: [AUTHENTICATIONFAILED] Invalid credentials''),
      fresh\<lparr>imap := Some 0\<rparr>,
      [IMAP4_SSL ''imap.example.org'' 993 None None, LOGIN 0 ''user'' ''wrong''])"
  using connect_wraps_IMAP4_error
          [of server_bad_login fresh "[]" "[]" "IMAP4_SSL ''imap.example.org'' 993 None None"
              "''user''" "''wrong''"]
  by (simp add: is_logged_def server_bad_login_def fresh_def init_def)


subsection \<open>Listing mailboxes\<close>

lemma mailbox_name_INBOX:
  "mailbox_name (DBytes (listing_line ''INBOX'')) = Inr ([dquote] @ ''INBOX'' @ [dquote])"
  by (simp add: listing_line_def decode_def byte_in_def delimiter_def dquote_def backslash_def)

lemma mailbox_name_Sent:
  "mailbox_name (DBytes (listing_line ''Sent'')) = Inr ([dquote] @ ''Sent'' @ [dquote])"
  by (simp add: listing_line_def decode_def byte_in_def delimiter_def dquote_def backslash_def)

text \<open>
  Claim C5, as the specification has it: with the two listing lines
  \<open>(\HasNoChildren) "/" "INBOX"\<close> and \<open>(\HasNoChildren) "/" "Sent"\<close> the result of
  \<open>list_mailboxes\<close> is the list of the plain names \<open>INBOX\<close> and \<open>Sent\<close>. It is not:
  the field after the delimiter is taken as it stands, double quotes included.
\<close>

theorem list_mailboxes_plain_names_counterexample:
  "fst (is_logged server_two_mailboxes held []) = Inr True \<and>
   server_two_mailboxes [NOOP 0, LIST 0 [] ''*''] =
     Returns ''OK'' [DBytes (listing_line ''INBOX''), DBytes (listing_line ''Sent'')] \<and>
   fst (list_mailboxes server_two_mailboxes [] ''*'' held []) \<noteq> Inr [''INBOX'', ''Sent'']"
  by (simp add: list_mailboxes_def is_logged_def imap_call_def invoke_def
        server_two_mailboxes_def held_def fresh_def init_def
        mailbox_name_INBOX mailbox_name_Sent dquote_def del: mailbox_name.simps)


text \<open>
  Claim C5, amended. On an authenticated session, when the library returns \<open>OK\<close> with
  the two listing lines, \<open>list_mailboxes\<close> returns exactly the two name fields that
  follow the quoted delimiter, each still inside its double quotes: \<open>"INBOX"\<close> and
  \<open>"Sent"\<close>.
\<close>

theorem list_mailboxes_keeps_quotes:
  assumes "fst (is_logged lib self tr) = Inr True"
      and "imap self = Some h"
      and "lib (tr @ [NOOP h, LIST h directory pattern]) =
             Returns ''OK'' [DBytes (listing_line ''INBOX''), DBytes (listing_line ''Sent'')]"
  shows "list_mailboxes lib directory pattern self tr =
           (Inr [[dquote] @ ''INBOX'' @ [dquote], [dquote] @ ''Sent'' @ [dquote]], self,
            tr @ [NOOP h, LIST h directory pattern])"
proof -
  from is_logged_True [OF assms(1)] assms(2)
  have l: "is_logged lib self tr = (Inr True, self, tr @ [NOOP h])" by auto
  show ?thesis using l assms(2,3)
    by (simp add: list_mailboxes_def imap_call_def invoke_def mailbox_name_INBOX mailbox_name_Sent
          del: mailbox_name.simps)
qed

theorem list_mailboxes_keeps_quotes_witness:
  "fst (is_logged server_two_mailboxes held []) = Inr True \<and> imap held = Some 0 \<and>
   server_two_mailboxes [NOOP 0, LIST 0 [] ''*''] =
     Returns ''OK'' [DBytes (listing_line ''INBOX''), DBytes (listing_line ''Sent'')] \<and>
   list_mailboxes server_two_mailboxes [] ''*'' held [] =
     (Inr [[dquote] @ ''INBOX'' @ [dquote], [dquote] @ ''Sent'' @ [dquote]], held,
      [NOOP 0, LIST 0 [] ''*''])"
  using list_mailboxes_keeps_quotes [of server_two_mailboxes held "[]" 0 "[]" "''*''"]
  by (simp add: is_logged_def invoke_def server_two_mailboxes_def held_def fresh_def init_def)


subsection \<open>Disconnecting\<close>




text \<open>
  Claim C9, as the specification has it: after a successful \<open>disconnect\<close> on an
  authenticated session, the session no longer holds the connection handle. It does:
  \<open>disconnect\<close> calls \<open>logout\<close> and assigns nothing, so the handle is still there.
\<close>

theorem disconnect_releases_handle_counterexample:
  "fst (is_logged server_ok held []) = Inr True \<and>
   disconnect server_ok held [] = (Inr (), held, [NOOP 0, LOGOUT 0]) \<and>
   imap (fst (snd (disconnect server_ok held []))) = Some 0 \<and>
   imap (fst (snd (disconnect server_ok held []))) \<noteq> None"
  by (simp add: disconnect_def is_logged_def imap_call_def invoke_def server_ok_def held_def
        fresh_def init_def)


text \<open>
  Claim C9, amended. On an authenticated session, when \<open>logout\<close> returns,
  \<open>disconnect\<close> returns without an error, its calls are the probe and then \<open>logout\<close> on
  the handle, and the session is unchanged: it still holds the same handle, now logged
  out.
\<close>

theorem disconnect_sends_logout_keeps_handle:
  assumes "fst (is_logged lib self tr) = Inr True"
      and "imap self = Some h"
      and "lib (tr @ [NOOP h, LOGOUT h]) = Returns status data"
  shows "disconnect lib self tr = (Inr (), self, tr @ [NOOP h, LOGOUT h]) \<and>
         imap (fst (snd (disconnect lib self tr))) = Some h"
proof -
  from is_logged_True [OF assms(1)] assms(2)
  have l: "is_logged lib self tr = (Inr True, self, tr @ [NOOP h])" by auto
  show ?thesis using l assms(2,3)
    by (simp add: disconnect_def imap_call_def invoke_def)
qed

theorem disconnect_sends_logout_keeps_handle_witness:
  "fst (is_logged server_logout_closes held []) = Inr True \<and> imap held = Some 0 \<and>
   server_logout_closes [NOOP 0, LOGOUT 0] = Returns ''OK'' [] \<and>
   disconnect server_logout_closes held [] = (Inr (), held, [NOOP 0, LOGOUT 0]) \<and>
   imap (fst (snd (disconnect server_logout_closes held []))) = Some 0"
  using disconnect_sends_logout_keeps_handle [of server_logout_closes held "[]" 0 "''OK''" "[]"]
  by (simp add: is_logged_def invoke_def server_logout_closes_def held_def fresh_def init_def)

subsection \<open>The batch fetch orchestrator\<close>

text \<open>
  The slices of the loop, taken at the indices of the range with a positive step: put
  together they are the list, none is empty or longer than the step, and all but the
  last have exactly the step's length.
\<close>

lemma decode_all_id: "decode_all xs = Inr ys \<Longrightarrow> ys = xs"
  by (induction xs arbitrary: ys) (auto simp: decode_def split: sum.splits if_splits)

lemma range_up_Nil: "range_up i n b = [] \<longleftrightarrow> \<not> (i < n \<and> 0 < b)"
  by (simp add: range_up.simps [of i])

lemma concat_slices:
  "0 < b \<Longrightarrow> concat (map (\<lambda>index. take b (drop index xs)) (range_up i (length xs) b)) = drop i xs"
proof (induction i "length xs" b rule: range_up.induct)
  case (1 i step)
  show ?case
  proof (cases "i < length xs")
    case True
    have "take step (drop i xs) @ drop (i + step) xs = drop i xs"
      by (metis add.commute append_take_drop_id drop_drop)
    with True 1 show ?thesis by (simp add: range_up.simps [of i])
  next
    case False
    then show ?thesis by (simp add: range_up.simps [of i])
  qed
qed

lemma slice_sizes:
  "0 < b \<Longrightarrow> w \<in> set (map (\<lambda>index. take b (drop index xs)) (range_up i (length xs) b))
     \<Longrightarrow> 1 \<le> length w \<and> length w \<le> b"
proof (induction i "length xs" b rule: range_up.induct)
  case (1 i step)
  show ?case
  proof (cases "i < length xs")
    case True
    with 1 show ?thesis by (auto simp: range_up.simps [of i])
  next
    case False
    with 1 show ?thesis by (simp add: range_up.simps [of i])
  qed
qed

lemma full_slices:
  "0 < b \<Longrightarrow> w \<in> set (butlast (map (\<lambda>index. take b (drop index xs)) (range_up i (length xs) b)))
     \<Longrightarrow> length w = b"
proof (induction i "length xs" b rule: range_up.induct)
  case (1 i step)
  show ?case
  proof (cases "i < length xs")
    case True
    show ?thesis
    proof (cases "range_up (i + step) (length xs) step = []")
      case True
      with 1 \<open>i < length xs\<close> show ?thesis by (simp add: range_up.simps [of i])
    next
      case False
      then have "i + step < length xs" by (simp add: range_up_Nil)
      with 1 \<open>i < length xs\<close> False show ?thesis
        by (auto simp: range_up.simps [of i])
    qed
  next
    case False
    with 1 show ?thesis by (simp add: range_up.simps [of i])
  qed
qed

lemma concat_bound:
  "list_all2 (\<lambda>r w. length r \<le> length w) rs ws \<Longrightarrow> length (concat rs) \<le> length (concat ws)"
  by (induction rule: list_all2_induct) auto

lemma first_undecodable_None: "first_undecodable ws = None \<Longrightarrow> decodable_prefix ws = ws"
  by (induction ws) (auto split: sum.splits)

text \<open>
  The loop over any list of indices: the calls for the windows in front of the first
  one that does not decode, then that window's exception, if there is such a window.
\<close>

lemma loop_is_fetch_each:
  "get_emails_loop lib S b idxs emails client tr =
     (case fetch_each lib
             (map (str_join '','') (decodable_prefix (map (\<lambda>index. take b (drop index S)) idxs)))
             client tr of
        (Inl e, client1, tr1) \<Rightarrow> (Inl e, client1, tr1)
      | (Inr rs, client1, tr1) \<Rightarrow>
          (case first_undecodable (map (\<lambda>index. take b (drop index S)) idxs) of
             None \<Rightarrow> (Inr (emails @ concat rs), client1, tr1)
           | Some e \<Rightarrow> (Inl e, client1, tr1)))"
proof (induction idxs arbitrary: emails client tr)
  case Nil
  show ?case by simp
next
  case (Cons index rest)
  show ?case
  proof (cases "decode_all (take b (drop index S))")
    case (Inl e)
    then show ?thesis by simp
  next
    case (Inr strs)
    then have strs: "strs = take b (drop index S)" by (rule decode_all_id)
    obtain r client1 tr1 where
      f: "fetch_emails lib (str_join '','' strs) client tr = (r, client1, tr1)"
      by (cases "fetch_emails lib (str_join '','' strs) client tr") auto
    show ?thesis
    proof (cases r)
      case (Inl e)
      with Inr strs f show ?thesis by simp
    next
      case batch: (Inr batch)
      obtain r2 client2 tr2 where
        g: "fetch_each lib
              (map (str_join '','') (decodable_prefix (map (\<lambda>index. take b (drop index S)) rest)))
              client1 tr1 = (r2, client2, tr2)"
        by (cases "fetch_each lib
              (map (str_join '','') (decodable_prefix (map (\<lambda>index. take b (drop index S)) rest)))
              client1 tr1") auto
      from Cons.IH [of "emails @ batch" client1 tr1] g
      have l: "get_emails_loop lib S b rest (emails @ batch) client1 tr1 =
                 (case r2 of
                    Inl e \<Rightarrow> (Inl e, client2, tr2)
                  | Inr rs \<Rightarrow>
                      (case first_undecodable (map (\<lambda>index. take b (drop index S)) rest) of
                         None \<Rightarrow> (Inr ((emails @ batch) @ concat rs), client2, tr2)
                       | Some e \<Rightarrow> (Inl e, client2, tr2)))"
        by (simp split: sum.splits)
      show ?thesis using Inr strs f batch g l
        by (simp split: sum.splits option.splits)
    qed
  qed
qed

text \<open>The library calls of one \<open>fetch_emails\<close> call, however it ends.\<close>

lemma fetch_emails_no_handle:
  "imap client = None \<Longrightarrow> fetch_emails lib u client tr = (Inl not_connected, client, tr)"
  by (simp add: fetch_emails_def is_logged_def)

lemma fetch_emails_calls:
  assumes "fetch_emails lib u client tr = (r, client1, tr1)" and "imap client = Some h"
  shows "client1 = client \<and>
         (case r of
            Inr batch \<Rightarrow> tr1 = tr @ [NOOP h, FETCH h u ''(RFC822)'']
          | Inl e \<Rightarrow> tr1 = tr @ [NOOP h] \<or> tr1 = tr @ [NOOP h, FETCH h u ''(RFC822)''])"
proof (cases "lib (tr @ [NOOP h])")
  case (Raises e)
  with assms show ?thesis
    by (auto simp: fetch_emails_def is_logged_def invoke_def split: if_splits)
next
  case (Returns status data)
  with assms show ?thesis
    by (auto simp: fetch_emails_def is_logged_def imap_call_def invoke_def
             split: reply.splits if_splits sum.splits)
qed

lemma fetch_each_no_handle:
  "imap client = None \<Longrightarrow> fetch_each lib us client tr = (r, client1, tr1) \<Longrightarrow>
     client1 = client \<and> tr1 = tr"
  by (cases us) (auto simp: fetch_emails_no_handle)

lemma fetch_each_calls:
  "fetch_each lib us client tr = (r, client1, tr1) \<Longrightarrow> imap client = Some h \<Longrightarrow>
     client1 = client \<and>
     (case r of
        Inr batches \<Rightarrow> length batches = length us \<and> tr1 = tr @ fetch_calls h us
      | Inl e \<Rightarrow>
          (\<exists>k<length us.
             tr1 = tr @ fetch_calls h (take k us) @ [NOOP h] \<or>
             tr1 = tr @ fetch_calls h (take k us) @ [NOOP h, FETCH h (us ! k) ''(RFC822)'']))"
proof (induction us arbitrary: r client1 tr1 tr)
  case Nil
  then show ?case by (auto simp: fetch_calls_def)
next
  case (Cons u us)
  obtain r0 c0 t0 where f: "fetch_emails lib u client tr = (r0, c0, t0)"
    by (cases "fetch_emails lib u client tr") auto
  from fetch_emails_calls [OF f Cons.prems(2)]
  have c0: "c0 = client" and
    t0: "case r0 of
           Inr batch \<Rightarrow> t0 = tr @ [NOOP h, FETCH h u ''(RFC822)'']
         | Inl e \<Rightarrow> t0 = tr @ [NOOP h] \<or> t0 = tr @ [NOOP h, FETCH h u ''(RFC822)'']"
    by auto
  show ?case
  proof (cases r0)
    case (Inl e)
    with Cons.prems(1) f have "r = Inl e" "client1 = c0" "tr1 = t0" by auto
    with Inl c0 t0 show ?thesis
      by (auto simp: fetch_calls_def intro!: exI [of _ 0])
  next
    case (Inr batch)
    with t0 have t0': "t0 = tr @ [NOOP h, FETCH h u ''(RFC822)'']" by simp
    obtain r2 c2 t2 where g: "fetch_each lib us client t0 = (r2, c2, t2)"
      by (cases "fetch_each lib us client t0") auto
    from Cons.IH [OF g Cons.prems(2)]
    have c2: "c2 = client" and
      t2: "case r2 of
             Inr batches \<Rightarrow> length batches = length us \<and> t2 = t0 @ fetch_calls h us
           | Inl e \<Rightarrow>
               (\<exists>k<length us.
                  t2 = t0 @ fetch_calls h (take k us) @ [NOOP h] \<or>
                  t2 = t0 @ fetch_calls h (take k us) @ [NOOP h, FETCH h (us ! k) ''(RFC822)''])"
      by auto
    show ?thesis
    proof (cases r2)
      case inl: (Inl e)
      with Cons.prems(1) f Inr c0 g have r: "r = Inl e" "client1 = c2" "tr1 = t2" by auto
      from t2 inl obtain k where k: "k < length us" and
        d: "t2 = t0 @ fetch_calls h (take k us) @ [NOOP h] \<or>
            t2 = t0 @ fetch_calls h (take k us) @ [NOOP h, FETCH h (us ! k) ''(RFC822)'']"
        by auto
      have "Suc k < length (u # us)" using k by simp
      moreover have
        "tr1 = tr @ fetch_calls h (take (Suc k) (u # us)) @ [NOOP h] \<or>
         tr1 = tr @ fetch_calls h (take (Suc k) (u # us))
                  @ [NOOP h, FETCH h ((u # us) ! Suc k) ''(RFC822)'']"
        using d r t0' by (auto simp: fetch_calls_def)
      ultimately show ?thesis using r c2 by auto
    next
      case inr: (Inr batches)
      with Cons.prems(1) f Inr c0 g have
        r: "r = Inr (batch # batches)" "client1 = c2" "tr1 = t2" by auto
      with t2 inr t0' c2 show ?thesis by (auto simp: fetch_calls_def)
    qed
  qed
qed

text \<open>The example of the specification: 23 identifiers in batches of 10.\<close>

lemma windows_23_by_10: "map length (windows (replicate 23 x) 10) = [10, 10, 3]"
  by (simp add: windows_def range_up.simps)

text \<open>
  Claim C1, as the specification has it: for every identifier sequence \<open>S\<close> and every
  batch size of at least 1, the flat list the orchestrator returns is at most as long as
  \<open>S\<close>. The loop appends whatever each \<open>fetch_emails\<close> call returns, and
  \<open>fetch_emails\<close> returns one message for every second item of the server's reply,
  however many identifiers were asked for. With a reply of two messages to a fetch of the
  single identifier \<open>7\<close> the result has two entries.
\<close>

theorem batch_result_longer_counterexample:
  "(1::int) \<le> 1 \<and>
   fst (search_emails server_two_always ''ALL'' held []) = Inr [''7''] \<and>
   get_emails_batches server_two_always [''7''] 1 held [] =
     (Inr [message_from_bytes ''a'', message_from_bytes ''b''], held,
      [NOOP 0, FETCH 0 ''7'' ''(RFC822)'']) \<and>
   fst (get_emails server_two_always ''imap.example.org'' ''user'' ''secret'' (Some ''INBOX'')
          ''ALL'' 1 []) =
     Inr [message_from_bytes ''a'', message_from_bytes ''b''] \<and>
   \<not> length [message_from_bytes ''a'', message_from_bytes ''b''] \<le> length [''7'']"
  by (simp add: get_emails_def get_emails_body_def exit_client_def connect_def disconnect_def
        select_mailbox_def search_emails_def bytes_split_def is_space_def
        get_emails_batches_def py_range0_def range_up.simps decode_def byte_in_def
        fetch_emails_def is_logged_def imap_call_def invoke_def server_two_always_def
        held_def fresh_def init_def)

text \<open>
  Claim C1, amended. For every identifier sequence \<open>S\<close> and every batch size \<open>b\<close> of at
  least 1, the windows of the loop are consecutive and do not overlap: put together in
  order they are \<open>S\<close>, so every identifier is in exactly one window and none is fetched
  twice; each window has between 1 and \<open>b\<close> identifiers and all but the last have exactly
  \<open>b\<close>. The loop takes the windows in order. For each window it decodes the identifiers
  and makes one \<open>fetch_emails\<close> call on them, joined with commas. It ends with an
  exception, and fetches nothing from then on, at the first window that holds an
  identifier that is not valid UTF-8, for which no call is made, or at the first call
  that raises, whichever comes first; the results so far are lost. On a session that
  holds a handle the calls into the library are a probe and a fetch for every window
  whose call returned, and for the call that raised its probe, or its probe and its
  fetch; on a session that holds no handle nothing is called. When every window decodes and every
  call returns, there is one result per window and the list returned is the results put
  together in window order; it is at most as long as \<open>S\<close> whenever each window's call
  returned at most as many messages as the window has identifiers. The reply of the
  server is passed through unchecked, so nothing bounds the length otherwise.
\<close>

theorem batches_partition_and_fetch:
  assumes "1 \<le> batch_size"
  shows
    "let ws = windows S (nat batch_size);
         us = map (str_join '','') (decodable_prefix ws)
     in concat ws = S \<and>
        (\<forall>w \<in> set ws. 1 \<le> length w \<and> length w \<le> nat batch_size) \<and>
        (\<forall>w \<in> set (butlast ws). length w = nat batch_size) \<and>
        get_emails_batches lib S batch_size client tr =
          (case fetch_each lib us client tr of
             (Inl e, client1, tr1) \<Rightarrow> (Inl e, client1, tr1)
           | (Inr batches, client1, tr1) \<Rightarrow>
               (case first_undecodable ws of
                  None \<Rightarrow> (Inr (concat batches), client1, tr1)
                | Some e \<Rightarrow> (Inl e, client1, tr1))) \<and>
        (\<forall>r client1 tr1.
           fetch_each lib us client tr = (r, client1, tr1) \<longrightarrow>
             client1 = client \<and>
             (imap client = None \<longrightarrow> tr1 = tr) \<and>
             (\<forall>h. imap client = Some h \<longrightarrow>
                (case r of
                   Inr batches \<Rightarrow> length batches = length us \<and> tr1 = tr @ fetch_calls h us
                 | Inl e \<Rightarrow>
                     (\<exists>k<length us.
                        tr1 = tr @ fetch_calls h (take k us) @ [NOOP h] \<or>
                        tr1 = tr @ fetch_calls h (take k us)
                                 @ [NOOP h, FETCH h (us ! k) ''(RFC822)''])))) \<and>
        (\<forall>batches client1 tr1.
           first_undecodable ws = None \<and>
           fetch_each lib us client tr = (Inr batches, client1, tr1) \<and>
           list_all2 (\<lambda>batch w. length batch \<le> length w) batches ws
           \<longrightarrow> us = map (str_join '','') ws \<and> length (concat batches) \<le> length S)"
proof -
  define b where "b = nat batch_size"
  define ws where "ws = windows S b"
  define us where "us = map (str_join '','') (decodable_prefix ws)"
  from assms have b: "0 < b" by (simp add: b_def)
  have ws: "ws = map (\<lambda>index. take b (drop index S)) (range_up 0 (length S) b)"
    by (simp add: ws_def windows_def)
  have c: "concat ws = S"
    using concat_slices [OF b, of S 0] by (simp add: ws)
  have s: "\<forall>w \<in> set ws. 1 \<le> length w \<and> length w \<le> b"
    using slice_sizes [OF b, of _ S 0] unfolding ws by blast
  have f: "\<forall>w \<in> set (butlast ws). length w = b"
    using full_slices [OF b, of _ S 0] unfolding ws by blast
  have r: "py_range0 (length S) batch_size = Inr (range_up 0 (length S) b)"
    using assms by (simp add: py_range0_def b_def)
  have e: "get_emails_batches lib S batch_size client tr =
          (case fetch_each lib us client tr of
             (Inl e, client1, tr1) \<Rightarrow> (Inl e, client1, tr1)
           | (Inr batches, client1, tr1) \<Rightarrow>
               (case first_undecodable ws of
                  None \<Rightarrow> (Inr (concat batches), client1, tr1)
                | Some e \<Rightarrow> (Inl e, client1, tr1)))"
    unfolding get_emails_batches_def r us_def ws b_def [symmetric]
    by (simp add: loop_is_fetch_each split: prod.splits sum.splits option.splits)
  have t: "\<forall>r client1 tr1.
           fetch_each lib us client tr = (r, client1, tr1) \<longrightarrow>
             client1 = client \<and>
             (imap client = None \<longrightarrow> tr1 = tr) \<and>
             (\<forall>h. imap client = Some h \<longrightarrow>
                (case r of
                   Inr batches \<Rightarrow> length batches = length us \<and> tr1 = tr @ fetch_calls h us
                 | Inl e \<Rightarrow>
                     (\<exists>k<length us.
                        tr1 = tr @ fetch_calls h (take k us) @ [NOOP h] \<or>
                        tr1 = tr @ fetch_calls h (take k us)
                                 @ [NOOP h, FETCH h (us ! k) ''(RFC822)''])))"
  proof (intro allI impI)
    fix r client1 tr1
    assume run: "fetch_each lib us client tr = (r, client1, tr1)"
    show "client1 = client \<and>
          (imap client = None \<longrightarrow> tr1 = tr) \<and>
          (\<forall>h. imap client = Some h \<longrightarrow>
             (case r of
                Inr batches \<Rightarrow> length batches = length us \<and> tr1 = tr @ fetch_calls h us
              | Inl e \<Rightarrow>
                  (\<exists>k<length us.
                     tr1 = tr @ fetch_calls h (take k us) @ [NOOP h] \<or>
                     tr1 = tr @ fetch_calls h (take k us)
                              @ [NOOP h, FETCH h (us ! k) ''(RFC822)''])))"
    proof (cases "imap client")
      case None
      from fetch_each_no_handle [OF None run] None show ?thesis by simp
    next
      case (Some h)
      from fetch_each_calls [OF run Some] Some show ?thesis by simp
    qed
  qed
  have l: "\<forall>batches client1 tr1.
           first_undecodable ws = None \<and>
           fetch_each lib us client tr = (Inr batches, client1, tr1) \<and>
           list_all2 (\<lambda>batch w. length batch \<le> length w) batches ws
           \<longrightarrow> us = map (str_join '','') ws \<and> length (concat batches) \<le> length S"
  proof (intro allI impI)
    fix batches client1 tr1
    assume a: "first_undecodable ws = None \<and>
               fetch_each lib us client tr = (Inr batches, client1, tr1) \<and>
               list_all2 (\<lambda>batch w. length batch \<le> length w) batches ws"
    then have "decodable_prefix ws = ws" by (simp add: first_undecodable_None)
    then have u: "us = map (str_join '','') ws" by (simp add: us_def)
    from a concat_bound [of batches ws] c have "length (concat batches) \<le> length S" by simp
    with u show "us = map (str_join '','') ws \<and> length (concat batches) \<le> length S" by simp
  qed
  from c s f e t l show ?thesis
    unfolding Let_def us_def ws_def b_def by (intro conjI)
qed

theorem batches_partition_and_fetch_witness:
  "(1::int) \<le> 2 \<and>
   windows [''1'', ''2'', ''3'', ''4'', ''5''] 2 = [[''1'', ''2''], [''3'', ''4''], [''5'']] \<and>
   first_undecodable [[''1'', ''2''], [''3'', ''4''], [''5'']] = None \<and>
   imap held = Some 0 \<and>
   fetch_each server_one_each [''1,2'', ''3,4'', ''5''] held [] =
     (Inr [[message_from_bytes ''mail1'', message_from_bytes ''mail2''],
           [message_from_bytes ''mail3'', message_from_bytes ''mail4''],
           [message_from_bytes ''mail5'']],
      held,
      [NOOP 0, FETCH 0 ''1,2'' ''(RFC822)'', NOOP 0, FETCH 0 ''3,4'' ''(RFC822)'',
       NOOP 0, FETCH 0 ''5'' ''(RFC822)'']) \<and>
   list_all2 (\<lambda>batch w. length batch \<le> length w)
     [[message_from_bytes ''mail1'', message_from_bytes ''mail2''],
      [message_from_bytes ''mail3'', message_from_bytes ''mail4''],
      [message_from_bytes ''mail5'']]
     [[''1'', ''2''], [''3'', ''4''], [''5'']] \<and>
   get_emails_batches server_one_each [''1'', ''2'', ''3'', ''4'', ''5''] 2 held [] =
     (Inr [message_from_bytes ''mail1'', message_from_bytes ''mail2'', message_from_bytes ''mail3'',
           message_from_bytes ''mail4'', message_from_bytes ''mail5''],
      held,
      [NOOP 0, FETCH 0 ''1,2'' ''(RFC822)'', NOOP 0, FETCH 0 ''3,4'' ''(RFC822)'',
       NOOP 0, FETCH 0 ''5'' ''(RFC822)'']) \<and>
   length [message_from_bytes ''mail1'', message_from_bytes ''mail2'', message_from_bytes ''mail3'',
           message_from_bytes ''mail4'', message_from_bytes ''mail5'']
     \<le> length [''1'', ''2'', ''3'', ''4'', ''5''] \<and>
   windows [''1'', [CHR 0xFF], ''3''] 2 = [[''1'', [CHR 0xFF]], [''3'']] \<and>
   decodable_prefix [[''1'', [CHR 0xFF]], [''3'']] = [] \<and>
   (\<exists>e. first_undecodable [[''1'', [CHR 0xFF]], [''3'']] = Some e \<and>
        class_of e = UnicodeDecodeError \<and>
        get_emails_batches server_one_each [''1'', [CHR 0xFF], ''3''] 2 held [] = (Inl e, held, []))"
proof -
  have w: "windows [''1'', ''2'', ''3'', ''4'', ''5''] 2 = [[''1'', ''2''], [''3'', ''4''], [''5'']]"
    by (simp add: windows_def range_up.simps)
  have d: "decodable_prefix [[''1'', ''2''], [''3'', ''4''], [''5'']]
             = [[''1'', ''2''], [''3'', ''4''], [''5'']]"
          "first_undecodable [[''1'', ''2''], [''3'', ''4''], [''5'']] = None"
    by (simp_all add: decode_def byte_in_def)
  have f: "fetch_each server_one_each [''1,2'', ''3,4'', ''5''] held [] =
     (Inr [[message_from_bytes ''mail1'', message_from_bytes ''mail2''],
           [message_from_bytes ''mail3'', message_from_bytes ''mail4''],
           [message_from_bytes ''mail5'']],
      held,
      [NOOP 0, FETCH 0 ''1,2'' ''(RFC822)'', NOOP 0, FETCH 0 ''3,4'' ''(RFC822)'',
       NOOP 0, FETCH 0 ''5'' ''(RFC822)''])"
    by (simp add: fetch_emails_def is_logged_def imap_call_def invoke_def
          server_one_each_def held_def fresh_def init_def)
  have h: "imap held = Some 0" by (simp add: held_def)
  have w': "windows [''1'', [CHR 0xFF], ''3''] 2 = [[''1'', [CHR 0xFF]], [''3'']]"
    by (simp add: windows_def range_up.simps)
  have d': "decodable_prefix [[''1'', [CHR 0xFF]], [''3'']] = []"
           "first_undecodable [[''1'', [CHR 0xFF]], [''3'']] =
              Some (Exc UnicodeDecodeError ''utf-8 codec can not decode bytes'')"
    by (simp_all add: decode_def byte_in_def)
  have f0: "fetch_each server_one_each [] held [] = (Inr [], held, [])" by simp
  show ?thesis
    using batches_partition_and_fetch
            [of 2 "[''1'', ''2'', ''3'', ''4'', ''5'']" server_one_each held "[]"]
          batches_partition_and_fetch
            [of 2 "[''1'', [CHR 0xFF], ''3'']" server_one_each held "[]"]
    by (simp add: Let_def w d f f0 h w' d' del: fetch_each.simps decodable_prefix.simps
          first_undecodable.simps)
qed

end
